theory Spec2Isabelle
  imports Main "HOL-Library.Word" "HOL-Library.Sublist"
begin

section \<open>Values shared by the relay server and the desktop loop\<close>

text \<open>
  Python \<open>bytes\<close> are lists of 8-bit words. A Python \<open>str\<close> is a \<open>string\<close>: each
  \<open>char\<close> stands for one code point below 256, which covers every character the
  source tests for (\<open>"q"\<close>, \<open>"."\<close>, the prefixes \<open>"TEXT:"\<close> and \<open>"ACK:"\<close>, white space).
\<close>

type_synonym bytes = "8 word list"

datatype py_error = TypeError | AttributeError | Cv2_error

text \<open>
  \<open>str.isspace\<close> on one character: the code points below 256 that Python treats as
  white space (tab to carriage return, the four separators 28 to 31, space, NEL and
  the no-break space).
\<close>

definition isspace :: "char \<Rightarrow> bool" where
  "isspace c = (of_char c \<in> set [9, 10, 11, 12, 13, 28, 29, 30, 31, 32, 133, 160 :: nat])"

text \<open>\<open>str.strip()\<close> with no argument removes leading and trailing white space.\<close>

definition strip :: "string \<Rightarrow> string" where
  "strip s = rev (dropWhile isspace (rev (dropWhile isspace s)))"

text \<open>\<open>s.startswith(p)\<close>.\<close>

definition startswith :: "string \<Rightarrow> string \<Rightarrow> bool" where
  "startswith s p = (take (length p) s = p)"

text \<open>
  The argument of \<open>session.send\<close>: a plain string, or a dict with the keys
  \<open>"mime_type"\<close> and \<open>"data"\<close>. The data of a dict is \<open>bytes\<close> (PCM audio) or a
  \<open>str\<close>. The \<open>str\<close> that the desktop loop builds for a video frame is
  \<open>base64.b64encode\<close> of the JPEG file that \<open>img.save\<close> writes for a picture; the
  two encoders are library code, so that string is kept as \<open>Data_b64_jpeg p\<close>.

  Of an image only its size in pixels is kept. The picture that is saved is either
  a captured image as it is, or what Pillow's \<open>img.thumbnail(size)\<close> makes of a
  captured image; \<open>thumbnail\<close> is library code too, so its application is kept as
  \<open>Thumbnail size img\<close>.
\<close>

record image =
  width :: nat
  height :: nat

datatype picture = Plain image | Thumbnail "nat \<times> nat" image

datatype media_data = Data_bytes bytes | Data_str string | Data_b64_jpeg picture

record media =
  mime_type :: string
  data :: media_data

datatype message = Msg_text string | Msg_dict media

text \<open>
  One call of \<open>session.send\<close>. \<open>end_of_turn\<close> is \<open>Some b\<close> when the call passes
  \<open>end_of_turn=b\<close> and \<open>None\<close> when the call passes no such argument.
\<close>

record send_call =
  input :: message
  end_of_turn :: "bool option"

section \<open>The relay server: \<open>from_client\<close> (backend.py)\<close>

text \<open>
  \<open>websocket.receive()\<close> returns a dict. The loop body only asks whether the keys
  \<open>"text"\<close> and \<open>"bytes"\<close> are present and reads their values, which are a \<open>str\<close>,
  \<open>bytes\<close> or \<open>None\<close>.
\<close>

datatype pkt_value = P_str string | P_bytes bytes | P_none

type_synonym pkt = "string \<rightharpoonup> pkt_value"

text \<open>
  One pass through the body of \<open>while True\<close> in \<open>from_client\<close>, for the packet
  received: the calls of \<open>session.send\<close> it makes, in order, or the exception it
  raises. \<open>startswith\<close> on a value that is not a \<open>str\<close> raises AttributeError;
  \<open>len(None)\<close> raises TypeError. Printing is left out.
\<close>

definition from_client_body :: "pkt \<Rightarrow> py_error + send_call list" where
  "from_client_body pkt =
     (if ''text'' \<in> dom pkt then
        (case pkt ''text'' of
           Some (P_str text_msg) \<Rightarrow>
             if startswith text_msg ''TEXT:'' then
               (let user_text = strip (drop 5 text_msg)
                in Inr [\<lparr>input = Msg_text user_text, end_of_turn = Some True\<rparr>])
             else if startswith text_msg ''ACK:'' then Inr []
             else Inr []
         | _ \<Rightarrow> Inl AttributeError)
      else if ''bytes'' \<in> dom pkt then
        (case pkt ''bytes'' of
           Some (P_bytes audio_bytes) \<Rightarrow>
             if length audio_bytes = 0 then Inr []
             else Inr [\<lparr>input = Msg_dict \<lparr>mime_type = ''audio/pcm'',
                                          data = Data_bytes audio_bytes\<rparr>,
                        end_of_turn = Some True\<rparr>]
         | Some (P_str audio_str) \<Rightarrow>
             if length audio_str = 0 then Inr []
             else Inr [\<lparr>input = Msg_dict \<lparr>mime_type = ''audio/pcm'',
                                          data = Data_str audio_str\<rparr>,
                        end_of_turn = Some True\<rparr>]
         | _ \<Rightarrow> Inl TypeError)
      else Inr [])"

text \<open>The packet of a binary frame and of a text frame.\<close>

definition binary_frame :: "bytes \<Rightarrow> pkt" where
  "binary_frame b = [''type'' \<mapsto> P_str ''websocket.receive'', ''bytes'' \<mapsto> P_bytes b]"

definition text_frame :: "string \<Rightarrow> pkt" where
  "text_frame s = [''type'' \<mapsto> P_str ''websocket.receive'', ''text'' \<mapsto> P_str s]"

section \<open>The desktop loop: text input (main1.py, \<open>AudioLoop.send_text\<close>)\<close>

text \<open>
  \<open>str.lower()\<close>, character by character: the capital letters below code point 256
  (A to Z, and 192 to 222 without the multiplication sign 215) move up by 32.
\<close>

definition lower_char :: "char \<Rightarrow> char" where
  "lower_char c =
     (let n = of_char c :: nat
      in if (65 \<le> n \<and> n \<le> 90) \<or> (192 \<le> n \<and> n \<le> 222 \<and> n \<noteq> 215)
         then char_of (n + 32) else c)"

definition lower :: "string \<Rightarrow> string" where
  "lower s = map lower_char s"

text \<open>
  One pass through the body of \<open>while True\<close> in \<open>send_text\<close>, for the line that
  \<open>input\<close> returned and the current \<open>user_message_count\<close>: \<open>None\<close> when the loop
  breaks (the line is the quit sentinel), otherwise the new count and the one call
  of \<open>session.send\<close>. \<open>text or "."\<close> is \<open>text\<close> unless \<open>text\<close> is empty.
\<close>

definition send_text_body :: "string \<Rightarrow> int \<Rightarrow> (int \<times> send_call) option" where
  "send_text_body text user_message_count =
     (if lower text = ''q'' then None
      else
        (let count = (if strip text \<noteq> [] then user_message_count + 1
                      else user_message_count)
         in Some (count, \<lparr>input = Msg_text (if text \<noteq> [] then text else ''.''),
                           end_of_turn = Some True\<rparr>)))"

section \<open>The desktop loop: queues and tasks (main1.py, \<open>AudioLoop\<close>)\<close>

text \<open>
  \<open>asyncio.Queue\<close>: a queue is the list of its items, oldest first. \<open>put\<close> on the
  outbound queue (\<open>maxsize=5\<close>) appends when there is room and otherwise suspends
  the caller (\<open>None\<close>: the step cannot happen yet); \<open>put_nowait\<close> on the unbounded
  inbound queue always appends; \<open>get\<close> takes the oldest item and suspends the
  caller on an empty queue.
\<close>

definition maxsize :: nat where
  "maxsize = 5"

definition put :: "'a list \<Rightarrow> 'a \<Rightarrow> 'a list option" where
  "put q item = (if length q < maxsize then Some (q @ [item]) else None)"

definition put_nowait :: "'a list \<Rightarrow> 'a \<Rightarrow> 'a list" where
  "put_nowait q item = q @ [item]"

definition get :: "'a list \<Rightarrow> ('a \<times> 'a list) option" where
  "get q = (case q of [] \<Rightarrow> None | item # rest \<Rightarrow> Some (item, rest))"

text \<open>An item of the response stream: \<open>response.data\<close> and \<open>response.text\<close>.\<close>

datatype response = Response (data_of: "bytes option") (text_of: "string option")

text \<open>
  What the tasks of one session share: the two queues, the calls of \<open>session.send\<close>
  made so far, the chunks passed to \<open>stream.write\<close>, the model text printed, the
  message count, and whether the task group is still running.
\<close>

record loop_state =
  out_queue :: "media list"
  audio_in_queue :: "bytes list"
  sent :: "send_call list"
  written :: "bytes list"
  printed :: "string list"
  user_message_count :: int
  running :: bool

definition init :: loop_state where
  "init = \<lparr>out_queue = [], audio_in_queue = [], sent = [], written = [], printed = [],
            user_message_count = 0, running = True\<rparr>"




text \<open>
  \<open>listen_audio\<close>, one pass of its loop once \<open>audio_stream.read\<close> has returned \<open>d\<close>:
  the dict is put on the outbound queue.
\<close>

definition listen_audio_body :: "bytes \<Rightarrow> loop_state \<Rightarrow> loop_state option" where
  "listen_audio_body d s =
     map_option (\<lambda>q. s\<lparr>out_queue := q\<rparr>)
       (put (out_queue s) \<lparr>mime_type = ''audio/pcm'', data = Data_bytes d\<rparr>)"

text \<open>\<open>get_frames\<close> and \<open>get_screen\<close>: the frame built is put on the outbound queue.\<close>

definition put_frame :: "media \<Rightarrow> loop_state \<Rightarrow> loop_state option" where
  "put_frame frame s = map_option (\<lambda>q. s\<lparr>out_queue := q\<rparr>) (put (out_queue s) frame)"

text \<open>
  \<open>send_realtime\<close>, one pass of its loop: \<open>msg = await self.out_queue.get()\<close>, then
  \<open>self.session.send(msg)\<close>, with no \<open>end_of_turn\<close> argument.
\<close>

definition send_realtime_body :: "loop_state \<Rightarrow> loop_state option" where
  "send_realtime_body s =
     (case get (out_queue s) of
        None \<Rightarrow> None
      | Some (msg, rest) \<Rightarrow>
          Some (s\<lparr>out_queue := rest,
                  sent := sent s @ [\<lparr>input = Msg_dict msg, end_of_turn = None\<rparr>]\<rparr>))"

text \<open>
  \<open>receive_audio\<close>, the body of \<open>async for response in turn\<close>: data that is present
  and not empty is queued for playback and the text is skipped (\<open>continue\<close>);
  otherwise text that is present and not empty is printed.
\<close>

definition receive_audio_response :: "response \<Rightarrow> loop_state \<Rightarrow> loop_state" where
  "receive_audio_response r s =
     (case data_of r of
        Some (b # bs) \<Rightarrow> s\<lparr>audio_in_queue := put_nowait (audio_in_queue s) (b # bs)\<rparr>
      | _ \<Rightarrow>
        (case text_of r of
           Some (c # cs) \<Rightarrow> s\<lparr>printed := printed s @ [c # cs]\<rparr>
         | _ \<Rightarrow> s))"

text \<open>
  \<open>receive_audio\<close>, after the turn's stream is exhausted:
  \<open>while not self.audio_in_queue.empty(): self.audio_in_queue.get_nowait()\<close>.
  The loop has no \<open>await\<close>, so no other task runs inside it.
\<close>

fun drain :: "'a list \<Rightarrow> 'a list" where
  "drain [] = []"
| "drain (item # q) = drain q"

definition receive_audio_turn_end :: "loop_state \<Rightarrow> loop_state" where
  "receive_audio_turn_end s = s\<lparr>audio_in_queue := drain (audio_in_queue s)\<rparr>"

text \<open>
  \<open>play_audio\<close>, one pass of its loop: \<open>bytestream = await self.audio_in_queue.get()\<close>,
  then \<open>stream.write(bytestream)\<close> is handed to a thread.
\<close>

definition play_audio_body :: "loop_state \<Rightarrow> loop_state option" where
  "play_audio_body s =
     (case get (audio_in_queue s) of
        None \<Rightarrow> None
      | Some (bytestream, rest) \<Rightarrow>
          Some (s\<lparr>audio_in_queue := rest, written := written s @ [bytestream]\<rparr>))"

text \<open>
  \<open>send_text\<close>, one pass of its loop for the line typed, on the shared state. The
  quit sentinel ends \<open>send_text\<close>; \<open>run\<close> then raises \<open>CancelledError\<close> and the task
  group cancels every task.
\<close>

definition send_text_line :: "string \<Rightarrow> loop_state \<Rightarrow> loop_state" where
  "send_text_line text s =
     (case send_text_body text (user_message_count s) of
        None \<Rightarrow> s\<lparr>running := False\<rparr>
      | Some (n, call) \<Rightarrow> s\<lparr>user_message_count := n, sent := sent s @ [call]\<rparr>)"

text \<open>
  The tasks run on one event loop and give up control only at an \<open>await\<close>, so a
  session is a sequence of steps, each the stretch of one task between two
  suspensions. A step that is \<open>None\<close> cannot be taken in that state.
\<close>

datatype event =
    Mic_read bytes
  | Frame media
  | Pump
  | Receive response
  | Turn_complete
  | Play
  | Line string

definition step :: "event \<Rightarrow> loop_state \<Rightarrow> loop_state option" where
  "step e s =
     (if \<not> running s then None
      else case e of
        Mic_read d \<Rightarrow> listen_audio_body d s
      | Frame frame \<Rightarrow> put_frame frame s
      | Pump \<Rightarrow> send_realtime_body s
      | Receive r \<Rightarrow> Some (receive_audio_response r s)
      | Turn_complete \<Rightarrow> Some (receive_audio_turn_end s)
      | Play \<Rightarrow> play_audio_body s
      | Line text \<Rightarrow> Some (send_text_line text s))"

fun run_steps :: "event list \<Rightarrow> loop_state \<Rightarrow> loop_state option" where
  "run_steps [] s = Some s"
| "run_steps (e # es) s =
     (case step e s of None \<Rightarrow> None | Some s' \<Rightarrow> run_steps es s')"

text \<open>
  Read off a sequence of steps: the items put on the outbound queue, and the audio
  chunks that \<open>receive_audio\<close> queued for playback, both in order.
\<close>

fun enqueued :: "event list \<Rightarrow> media list" where
  "enqueued [] = []"
| "enqueued (Mic_read d # es) =
     \<lparr>mime_type = ''audio/pcm'', data = Data_bytes d\<rparr> # enqueued es"
| "enqueued (Frame frame # es) = frame # enqueued es"
| "enqueued (e # es) = enqueued es"

fun received_audio :: "event list \<Rightarrow> bytes list" where
  "received_audio [] = []"
| "received_audio (Receive (Response (Some (b # bs)) t) # es) = (b # bs) # received_audio es"
| "received_audio (e # es) = received_audio es"

text \<open>The call that the outbound pump makes for a queue item.\<close>

definition pump_call :: "media \<Rightarrow> send_call" where
  "pump_call msg = \<lparr>input = Msg_dict msg, end_of_turn = None\<rparr>"

definition is_dict :: "send_call \<Rightarrow> bool" where
  "is_dict c = (case input c of Msg_dict m \<Rightarrow> True | Msg_text t \<Rightarrow> False)"

section \<open>The desktop loop: video frames (main1.py, \<open>_get_frame\<close>, \<open>_get_screen\<close>)\<close>

text \<open>
  \<open>_get_frame\<close>, for the outcome of \<open>cap.read()\<close> (\<open>None\<close> when \<open>ret\<close> is false).
  \<open>cv2.cvtColor\<close> raises on an empty frame; otherwise the frame becomes an image,
  is reduced by \<open>img.thumbnail([1024, 1024])\<close>, saved as JPEG and base64-encoded.
\<close>

definition get_frame :: "image option \<Rightarrow> py_error + media option" where
  "get_frame r =
     (case r of
        None \<Rightarrow> Inr None
      | Some frame \<Rightarrow>
          if width frame = 0 \<or> height frame = 0 then Inl Cv2_error
          else Inr (Some \<lparr>mime_type = ''image/jpeg'',
                           data = Data_b64_jpeg (Thumbnail (1024, 1024) frame)\<rparr>))"

text \<open>
  \<open>_get_screen\<close>, for the screenshot that \<open>sct.grab\<close> returned: it goes through PNG
  into an image of the same size, which is saved as JPEG and base64-encoded. No
  \<open>thumbnail\<close> is applied.
\<close>

definition get_screen :: "image \<Rightarrow> media" where
  "get_screen i = \<lparr>mime_type = ''image/jpeg'', data = Data_b64_jpeg (Plain i)\<rparr>"


section \<open>The desktop loop: devices and the end of a session (main1.py)\<close>

datatype device = Microphone | Speaker | Camera

datatype device_op = Opened device | Closed device

text \<open>
  \<open>check_audio_input\<close>, for the outcome of \<open>pya.get_default_input_device_info()\<close>:
  the device's dict, of which only \<open>"index"\<close> is read, or \<open>None\<close> when the call
  raises.
\<close>

record device_info =
  index :: int

definition check_audio_input :: "device_info option \<Rightarrow> bool \<times> device_info option" where
  "check_audio_input probe =
     (case probe of Some mic_info \<Rightarrow> (True, Some mic_info) | None \<Rightarrow> (False, None))"

text \<open>
  \<open>listen_audio\<close> up to the assignment of \<open>self.audio_stream\<close>. The branch
  \<open>if not mic_available: pass\<close> does nothing, so \<open>mic_info["index"]\<close> is evaluated
  either way, and raises TypeError on \<open>None\<close>. The result is the device index the
  input stream is opened with.
\<close>

definition listen_audio_open :: "device_info option \<Rightarrow> py_error + int" where
  "listen_audio_open probe =
     (let (mic_available, mic_info) = check_audio_input probe;
          skip = (if \<not> mic_available then () else ())
      in case mic_info of None \<Rightarrow> Inl TypeError | Some info \<Rightarrow> Inr (index info))"

text \<open>
  \<open>play_audio\<close> opens the output stream and then loops on the queue for ever; no
  statement of the program closes that stream.
\<close>

definition play_audio_ops :: "device_op list" where
  "play_audio_ops = [Opened Speaker]"

text \<open>
  \<open>get_frames\<close>: the loop over the outcomes of \<open>cap.read()\<close> that happen before the
  task is cancelled. It breaks at the first failed read, and only then reaches
  \<open>cap.release()\<close>. The result is the frames put on the outbound queue, the
  operations on the camera, and the exception raised, if any.
\<close>

fun get_frames_loop :: "image option list \<Rightarrow> media list \<times> device_op list \<times> py_error option" where
  "get_frames_loop [] = ([], [], None)"
| "get_frames_loop (r # rs) =
     (case get_frame r of
        Inl e \<Rightarrow> ([], [], Some e)
      | Inr None \<Rightarrow> ([], [Closed Camera], None)
      | Inr (Some frame) \<Rightarrow>
          (let (frames, ops, err) = get_frames_loop rs in (frame # frames, ops, err)))"

definition get_frames :: "image option list \<Rightarrow> media list \<times> device_op list \<times> py_error option" where
  "get_frames reads =
     (let (frames, ops, err) = get_frames_loop reads in (frames, Opened Camera # ops, err))"

text \<open>
  How the body of \<open>async with\<close> in \<open>run\<close> is left: by the \<open>CancelledError\<close> that
  \<open>run\<close> raises after \<open>send_text\<close> has returned, or by the \<open>ExceptionGroup\<close> of a
  task that failed.
\<close>

datatype exit_cause = User_quit | Task_failed

text \<open>
  The \<open>except\<close> clauses and the \<open>finally\<close> block of \<open>run\<close>, given whether
  \<open>self.audio_stream\<close> has been assigned: the operations on devices, and the
  exception that leaves \<open>run\<close>, if any. The handler for \<open>ExceptionGroup\<close> calls
  \<open>self.audio_stream.close()\<close> without a test, which raises AttributeError when the
  attribute is missing; the \<open>finally\<close> block closes under \<open>hasattr\<close>.
\<close>

definition run_handlers :: "exit_cause \<Rightarrow> bool \<Rightarrow> device_op list \<times> py_error option" where
  "run_handlers cause has_audio_stream =
     (let (ops, err) =
            (case cause of
               User_quit \<Rightarrow> ([], None)
             | Task_failed \<Rightarrow>
                 if has_audio_stream then ([Closed Microphone], None)
                 else ([], Some AttributeError));
          finally_ops = (if has_audio_stream then [Closed Microphone] else [])
      in (ops @ finally_ops, err))"

text \<open>
  One session of \<open>run\<close>, told by what happened before its end: the outcome of the
  microphone probe, the video mode, which \<open>open\<close> calls had returned, the camera
  reads, and how the session was left when no task failed.
\<close>

record session =
  mic_probe :: "device_info option"
  video_mode :: string
  mic_opened :: bool
  speaker_opened :: bool
  camera_opened :: bool
  camera_reads :: "image option list"
  cause :: exit_cause

definition camera_task :: "session \<Rightarrow> device_op list \<times> py_error option" where
  "camera_task ss =
     (if video_mode ss = ''camera'' \<and> camera_opened ss
      then (let (frames, ops, err) = get_frames (camera_reads ss) in (ops, err))
      else ([], None))"

definition exit_of :: "session \<Rightarrow> exit_cause" where
  "exit_of ss =
     (case listen_audio_open (mic_probe ss) of
        Inl e \<Rightarrow> Task_failed
      | Inr i \<Rightarrow> (if snd (camera_task ss) \<noteq> None then Task_failed else cause ss))"

definition has_audio_stream :: "session \<Rightarrow> bool" where
  "has_audio_stream ss =
     (case listen_audio_open (mic_probe ss) of Inl e \<Rightarrow> False | Inr i \<Rightarrow> mic_opened ss)"

definition run :: "session \<Rightarrow> device_op list \<times> py_error option" where
  "run ss =
     (let mic_ops = (if has_audio_stream ss then [Opened Microphone] else []);
          speaker_ops = (if speaker_opened ss then play_audio_ops else []);
          camera_ops = fst (camera_task ss);
          (close_ops, err) = run_handlers (exit_of ss) (has_audio_stream ss)
      in (mic_ops @ speaker_ops @ camera_ops @ close_ops, err))"

section \<open>Theorems\<close>

subsection \<open>Operations on the camera\<close>

lemma get_frame_none: "get_frame r = Inr None \<Longrightarrow> r = None"
  by (auto simp: get_frame_def split: option.splits if_splits)

lemma get_frames_loop_ops:
  "get_frames_loop reads = (frames, ops, err) \<Longrightarrow>
   (ops = [] \<or> ops = [Closed Camera]) \<and> (ops = [Closed Camera] \<longrightarrow> None \<in> set reads)"
proof (induction reads arbitrary: frames ops err)
  case Nil
  then show ?case by simp
next
  case (Cons r rs)
  show ?case
  proof (cases "get_frame r")
    case (Inl e)
    with Cons.prems show ?thesis by simp
  next
    case (Inr m)
    show ?thesis
    proof (cases m)
      case None
      with Inr have "r = None" by (simp add: get_frame_none)
      with Inr None Cons.prems show ?thesis by simp
    next
      case (Some frame)
      obtain fs os er where rec: "get_frames_loop rs = (fs, os, er)"
        by (cases "get_frames_loop rs") auto
      with Inr Some Cons.prems have "ops = os" by simp
      with Cons.IH [OF rec] show ?thesis by auto
    qed
  qed
qed

lemma camera_task_ops:
  "fst (camera_task ss) = [] \<or> fst (camera_task ss) = [Opened Camera]
   \<or> (fst (camera_task ss) = [Opened Camera, Closed Camera] \<and> None \<in> set (camera_reads ss))"
proof -
  obtain fs os er where rec: "get_frames_loop (camera_reads ss) = (fs, os, er)"
    by (cases "get_frames_loop (camera_reads ss)") auto
  from get_frames_loop_ops [OF rec] rec show ?thesis
    by (auto simp: camera_task_def get_frames_def)
qed

subsection \<open>Invariants of the desktop loop\<close>

lemma drain_empty: "drain q = []"
  by (induction q) simp_all

lemma played_invariant:
  "run_steps es s = Some s' \<Longrightarrow>
   \<exists>ys. written s' = written s @ ys
      \<and> subseq (ys @ audio_in_queue s') (audio_in_queue s @ received_audio es)"
proof (induction es arbitrary: s)
  case Nil
  then show ?case by simp
next
  case (Cons e es)
  from Cons.prems obtain s1 where st: "step e s = Some s1" and rest: "run_steps es s1 = Some s'"
    by (auto split: option.splits)
  from Cons.IH [OF rest] obtain ys where
    w: "written s' = written s1 @ ys"
    and sub: "subseq (ys @ audio_in_queue s') (audio_in_queue s1 @ received_audio es)"
    by blast
  show ?case
  proof (cases e)
    case (Mic_read d)
    with st have "written s1 = written s" "audio_in_queue s1 = audio_in_queue s"
      by (auto simp: step_def listen_audio_body_def split: if_splits)
    with w sub Mic_read show ?thesis by auto
  next
    case (Frame f)
    with st have "written s1 = written s" "audio_in_queue s1 = audio_in_queue s"
      by (auto simp: step_def put_frame_def split: if_splits)
    with w sub Frame show ?thesis by auto
  next
    case Pump
    with st have "written s1 = written s" "audio_in_queue s1 = audio_in_queue s"
      by (auto simp: step_def send_realtime_body_def split: if_splits option.splits)
    with w sub Pump show ?thesis by auto
  next
    case (Receive r)
    obtain d t where r: "r = Response d t" by (cases r)
    show ?thesis
    proof (cases "\<exists>b bs. d = Some (b # bs)")
      case True
      then obtain b bs where d: "d = Some (b # bs)" by blast
      with st Receive r have "written s1 = written s"
        "audio_in_queue s1 = audio_in_queue s @ [b # bs]"
        by (auto simp: step_def receive_audio_response_def put_nowait_def split: if_splits)
      with w sub Receive r d show ?thesis by auto
    next
      case False
      with st Receive r have "written s1 = written s" "audio_in_queue s1 = audio_in_queue s"
        by (auto simp: step_def receive_audio_response_def
            split: if_splits option.splits list.splits)
      moreover from False r have "received_audio (Receive r # es) = received_audio es"
        by (cases d; cases "the d") auto
      ultimately show ?thesis using w sub Receive by auto
    qed
  next
    case Turn_complete
    with st have "written s1 = written s" "audio_in_queue s1 = []"
      by (auto simp: step_def receive_audio_turn_end_def drain_empty split: if_splits)
    with w sub Turn_complete show ?thesis
      by auto
  next
    case Play
    with st obtain d where "audio_in_queue s = d # audio_in_queue s1"
      "written s1 = written s @ [d]"
      by (auto simp: step_def play_audio_body_def get_def split: if_splits list.splits)
    with w sub Play show ?thesis by auto
  next
    case (Line ln)
    with st have "written s1 = written s" "audio_in_queue s1 = audio_in_queue s"
      by (auto simp: step_def send_text_line_def split: if_splits option.splits)
    with w sub Line show ?thesis by auto
  qed
qed


lemma pump_invariant:
  "run_steps es s = Some s' \<Longrightarrow>
   filter is_dict (sent s') @ map pump_call (out_queue s') =
   filter is_dict (sent s) @ map pump_call (out_queue s) @ map pump_call (enqueued es)"
proof (induction es arbitrary: s)
  case Nil
  then show ?case by simp
next
  case (Cons e es)
  from Cons.prems obtain s1 where st: "step e s = Some s1" and rest: "run_steps es s1 = Some s'"
    by (auto split: option.splits)
  have "filter is_dict (sent s1) @ map pump_call (out_queue s1) @ map pump_call (enqueued es) =
        filter is_dict (sent s) @ map pump_call (out_queue s) @ map pump_call (enqueued (e # es))"
    using st
    by (cases e)
      (auto simp: step_def listen_audio_body_def put_frame_def put_def send_realtime_body_def
        get_def receive_audio_response_def receive_audio_turn_end_def play_audio_body_def
        send_text_line_def send_text_body_def is_dict_def pump_call_def
        split: if_splits option.splits list.splits)
  with Cons.IH [OF rest] show ?case by simp
qed

lemma only_pump_consumes:
  "e \<noteq> Pump \<Longrightarrow> step e s = Some s' \<Longrightarrow> prefix (out_queue s) (out_queue s')"
  by (cases e)
    (auto simp: step_def listen_audio_body_def put_frame_def put_def
      receive_audio_response_def receive_audio_turn_end_def play_audio_body_def
      send_text_line_def get_def
      split: if_splits option.splits list.splits)

lemma pump_enabled:
  "running s \<Longrightarrow> out_queue s = msg # rest \<Longrightarrow>
   step Pump s = Some (s\<lparr>out_queue := rest, sent := sent s @ [pump_call msg]\<rparr>)"
  by (simp add: step_def send_realtime_body_def get_def pump_call_def)

lemma pump_drains:
  "running s \<Longrightarrow> out_queue s = q \<Longrightarrow>
   run_steps (replicate (length q) Pump) s =
     Some (s\<lparr>out_queue := [], sent := sent s @ map pump_call q\<rparr>)"
proof (induction q arbitrary: s)
  case Nil
  then show ?case by simp
next
  case (Cons msg rest)
  let ?s1 = "s\<lparr>out_queue := rest, sent := sent s @ [pump_call msg]\<rparr>"
  from Cons.prems have st: "step Pump s = Some ?s1" by (rule pump_enabled)
  from Cons.prems have "running ?s1" and "out_queue ?s1 = rest" by simp_all
  from Cons.IH [OF this] st show ?case by simp
qed


lemma pump_calls_flagless:
  "set (filter is_dict (sent s)) \<subseteq> set (map pump_call ms) \<Longrightarrow>
   c \<in> set (sent s) \<Longrightarrow> is_dict c \<Longrightarrow> end_of_turn c = None"
  by (auto simp: pump_call_def)

lemma binary_frame_text [simp]: "binary_frame b ''text'' = None"
  by (simp add: binary_frame_def)

lemma binary_frame_bytes [simp]: "binary_frame b ''bytes'' = Some (P_bytes b)"
  by (simp add: binary_frame_def)

lemma text_frame_text [simp]: "text_frame s ''text'' = Some (P_str s)"
  by (simp add: text_frame_def)

text \<open>
  Claim C6. In the relay server, a client binary frame of N > 0 bytes makes exactly
  one call of \<open>session.send\<close>, with a dict holding the very same bytes under
  \<open>"data"\<close> and with \<open>end_of_turn=True\<close>; a binary frame of 0 bytes makes no call.
\<close>

theorem binary_frame_forwarded:
  assumes "''text'' \<notin> dom pkt" and "pkt ''bytes'' = Some (P_bytes b)"
  shows "from_client_body pkt =
           (if length b = 0 then Inr []
            else Inr [\<lparr>input = Msg_dict \<lparr>mime_type = ''audio/pcm'', data = Data_bytes b\<rparr>,
                       end_of_turn = Some True\<rparr>])"
  using assms by (simp add: from_client_body_def dom_def)

theorem binary_frame_forwarded_witness:
  "from_client_body (binary_frame [1, 2, 3]) =
     Inr [\<lparr>input = Msg_dict \<lparr>mime_type = ''audio/pcm'', data = Data_bytes [1, 2, 3]\<rparr>,
            end_of_turn = Some True\<rparr>]
   \<and> from_client_body (binary_frame []) = Inr []"
  using binary_frame_forwarded [of "binary_frame [1, 2, 3]" "[1, 2, 3]"]
    binary_frame_forwarded [of "binary_frame []" "[]"]
  by (simp add: dom_def)

text \<open>
  Claim C10. In the relay server, a client text frame \<open>"TEXT:" + s\<close> makes one call
  of \<open>session.send\<close> whose payload is \<open>s\<close> without its leading and trailing white
  space, with \<open>end_of_turn=True\<close>. The payload can differ from what was received,
  and a frame whose stripped payload is empty still makes one call, of the empty
  string.
\<close>

theorem text_frame_stripped:
  assumes "pkt ''text'' = Some (P_str (''TEXT:'' @ s))"
  shows "from_client_body pkt =
           Inr [\<lparr>input = Msg_text (strip s), end_of_turn = Some True\<rparr>]"
  using assms by (simp add: from_client_body_def dom_def startswith_def)

theorem text_frame_stripped_witness:
  "from_client_body (text_frame ''TEXT: hi '') =
     Inr [\<lparr>input = Msg_text ''hi'', end_of_turn = Some True\<rparr>]
   \<and> from_client_body (text_frame ''TEXT:  '') =
     Inr [\<lparr>input = Msg_text [], end_of_turn = Some True\<rparr>]"
  using text_frame_stripped [of "text_frame ''TEXT: hi ''" "'' hi ''"]
    text_frame_stripped [of "text_frame ''TEXT:  ''" "''  ''"]
  by (simp add: strip_def isspace_def)

text \<open>
  Claim C8. When the operator submits an empty line, one call of \<open>session.send\<close>
  with \<open>end_of_turn=True\<close> is still made, carrying the single placeholder character
  \<open>"."\<close>, and the message count stays as it was.
\<close>

theorem empty_line_sends_placeholder:
  "send_text_body [] n = Some (n, \<lparr>input = Msg_text ''.'', end_of_turn = Some True\<rparr>)"
  by (simp add: send_text_body_def lower_def strip_def)

text \<open>
  Claim C7, as stated, fails: a line of one space is not empty, it is sent as it is
  with \<open>end_of_turn=True\<close>, and the message count does not move; the line \<open>"q"\<close> is
  not empty and nothing is sent for it.
\<close>

theorem nonempty_line_count_counterexample:
  "'' '' \<noteq> []
   \<and> send_text_body '' '' 0 = Some (0, \<lparr>input = Msg_text '' '', end_of_turn = Some True\<rparr>)
   \<and> ''q'' \<noteq> [] \<and> send_text_body ''q'' 0 = None"
  by (simp add: send_text_body_def lower_def lower_char_def strip_def isspace_def)

text \<open>
  Claim C7, amended. For every line that is not the quit sentinel (\<open>"q"\<close> or \<open>"Q"\<close>)
  and holds at least one character that is not white space (such as \<open>"hello"\<close>),
  exactly one call of \<open>session.send\<close> is made, with that line as payload and
  \<open>end_of_turn=True\<close>, and the message count goes up by exactly one.
\<close>

theorem nonblank_line_sent_and_counted:
  assumes "lower text \<noteq> ''q''" and "strip text \<noteq> []"
  shows "send_text_body text n =
           Some (n + 1, \<lparr>input = Msg_text text, end_of_turn = Some True\<rparr>)"
proof -
  from assms(2) have "text \<noteq> []" by (auto simp: strip_def)
  with assms show ?thesis by (simp add: send_text_body_def)
qed

theorem nonblank_line_sent_and_counted_witness:
  "lower ''hello'' \<noteq> ''q'' \<and> strip ''hello'' \<noteq> []
   \<and> send_text_body ''hello'' 0 =
       Some (1, \<lparr>input = Msg_text ''hello'', end_of_turn = Some True\<rparr>)"
proof -
  have a: "lower ''hello'' \<noteq> ''q''" by (simp add: lower_def)
  have b: "strip ''hello'' \<noteq> []" by (simp add: strip_def isspace_def)
  show ?thesis using a b nonblank_line_sent_and_counted [OF a b, of 0] by simp
qed

text \<open>
  Claim C1. Once \<open>receive_audio\<close> has seen the end of a turn's response stream and
  emptied the inbound audio queue, no chunk queued before that point reaches
  \<open>stream.write\<close>: the queue is empty right after the step, and whatever is written
  from then on, in any later run of the tasks, is drawn in order from the audio
  received after the step.
\<close>

theorem stale_audio_never_played:
  assumes "step Turn_complete s = Some s1" and "run_steps es s1 = Some s2"
  shows "audio_in_queue s1 = []
         \<and> (\<exists>ys. written s2 = written s @ ys \<and> subseq ys (received_audio es))"
proof -
  from assms(1) have q: "audio_in_queue s1 = []" and w: "written s1 = written s"
    by (auto simp: step_def receive_audio_turn_end_def drain_empty split: if_splits)
  from played_invariant [OF assms(2)] q w obtain ys where
    ys: "written s2 = written s @ ys"
    and sub: "subseq (ys @ audio_in_queue s2) (received_audio es)"
    by auto
  have "subseq ys (ys @ audio_in_queue s2)"
    by (rule prefix_imp_subseq) simp
  from this sub have "subseq ys (received_audio es)"
    by (rule subseq_order.trans)
  with q ys show ?thesis by blast
qed

theorem stale_audio_never_played_witness:
  "step Turn_complete (init\<lparr>audio_in_queue := [[1], [2]]\<rparr>) = Some init
   \<and> run_steps [Receive (Response (Some [3]) None), Play] init = Some (init\<lparr>written := [[3]]\<rparr>)
   \<and> audio_in_queue init = []
   \<and> (\<exists>ys. written (init\<lparr>written := [[3]]\<rparr>) =
             written (init\<lparr>audio_in_queue := [[1], [2]]\<rparr>) @ ys
           \<and> subseq ys (received_audio [Receive (Response (Some [3]) None), Play]))"
proof -
  have a: "step Turn_complete (init\<lparr>audio_in_queue := [[1], [2]]\<rparr>) = Some init"
    by (simp add: step_def receive_audio_turn_end_def init_def)
  have b: "run_steps [Receive (Response (Some [3]) None), Play] init
           = Some (init\<lparr>written := [[3]]\<rparr>)"
    by (simp add: step_def receive_audio_response_def put_nowait_def play_audio_body_def
        get_def init_def)
  show ?thesis using a b stale_audio_never_played [OF a b] by blast
qed

text \<open>
  Claim C2, as stated, fails in one part: the pump does not pass an end-of-turn flag
  to \<open>session.send\<close>. For a screen frame put on the outbound queue, the call made is
  \<open>session.send(msg)\<close> with the frame alone.
\<close>

theorem pump_passes_no_flag_counterexample:
  "run_steps [Frame (get_screen \<lparr>width = 1920, height = 1080\<rparr>), Pump] init =
     Some (init\<lparr>sent := [\<lparr>input = Msg_dict (get_screen \<lparr>width = 1920, height = 1080\<rparr>),
                            end_of_turn = None\<rparr>]\<rparr>)"
  by (simp add: step_def put_frame_def put_def maxsize_def send_realtime_body_def
      get_def init_def)

text \<open>
  Claim C2, amended. \<open>send_realtime\<close> is the only task that takes items off the
  outbound queue, and it calls \<open>session.send\<close> once for each item, with that item as
  the payload and with no end-of-turn argument, in the order the items were put on
  the queue, one item a call. At every moment of a session: the pump's calls so far,
  followed by the calls owed for the items still queued, are the calls for all items
  put so far, in order; none of its calls carries an end-of-turn flag; the pump can
  always take the oldest queued item, and that pass sends exactly this item; given
  its turns, the pump sends every queued item, in order, and empties the queue; and
  no other step removes an item.
\<close>

theorem outbound_pump_fifo:
  assumes "run_steps es init = Some s"
  shows "filter is_dict (sent s) @ map pump_call (out_queue s) = map pump_call (enqueued es)
         \<and> (\<forall>c \<in> set (sent s). is_dict c \<longrightarrow> end_of_turn c = None)
         \<and> (\<forall>msg rest. running s \<longrightarrow> out_queue s = msg # rest \<longrightarrow>
               step Pump s = Some (s\<lparr>out_queue := rest, sent := sent s @ [pump_call msg]\<rparr>))
         \<and> (running s \<longrightarrow>
               run_steps (replicate (length (out_queue s)) Pump) s =
                 Some (s\<lparr>out_queue := [], sent := sent s @ map pump_call (out_queue s)\<rparr>))
         \<and> (\<forall>e s'. e \<noteq> Pump \<longrightarrow> step e s = Some s' \<longrightarrow>
               prefix (out_queue s) (out_queue s'))"
proof -
  from pump_invariant [OF assms]
  have inv: "filter is_dict (sent s) @ map pump_call (out_queue s) = map pump_call (enqueued es)"
    by (simp add: init_def)
  then have "set (filter is_dict (sent s)) \<subseteq> set (map pump_call (enqueued es))"
    by (metis set_append Un_upper1)
  then have flag: "\<forall>c \<in> set (sent s). is_dict c \<longrightarrow> end_of_turn c = None"
    using pump_calls_flagless by blast
  from inv flag show ?thesis
    using pump_enabled pump_drains only_pump_consumes by blast
qed

theorem outbound_pump_fifo_witness:
  "run_steps [Mic_read (replicate 2048 1), Mic_read (replicate 2048 2), Line ''hi'', Pump] init =
     Some (init\<lparr>out_queue := [\<lparr>mime_type = ''audio/pcm'', data = Data_bytes (replicate 2048 2)\<rparr>],
                 sent := [\<lparr>input = Msg_text ''hi'', end_of_turn = Some True\<rparr>,
                          pump_call \<lparr>mime_type = ''audio/pcm'',
                                      data = Data_bytes (replicate 2048 1)\<rparr>],
                 user_message_count := 1\<rparr>)
   \<and> [pump_call \<lparr>mime_type = ''audio/pcm'', data = Data_bytes (replicate 2048 1)\<rparr>]
       @ map pump_call [\<lparr>mime_type = ''audio/pcm'', data = Data_bytes (replicate 2048 2)\<rparr>]
     = map pump_call
         (enqueued [Mic_read (replicate 2048 1), Mic_read (replicate 2048 2), Line ''hi'', Pump])"
proof -
  have a: "run_steps [Mic_read (replicate 2048 1), Mic_read (replicate 2048 2), Line ''hi'', Pump]
             init =
     Some (init\<lparr>out_queue := [\<lparr>mime_type = ''audio/pcm'', data = Data_bytes (replicate 2048 2)\<rparr>],
                 sent := [\<lparr>input = Msg_text ''hi'', end_of_turn = Some True\<rparr>,
                          pump_call \<lparr>mime_type = ''audio/pcm'',
                                      data = Data_bytes (replicate 2048 1)\<rparr>],
                 user_message_count := 1\<rparr>)"
    by (simp add: step_def listen_audio_body_def put_def maxsize_def send_realtime_body_def
        get_def send_text_line_def send_text_body_def lower_def lower_char_def strip_def
        isspace_def pump_call_def init_def)
  from outbound_pump_fifo [OF a]
  have "filter is_dict
          (sent (init\<lparr>out_queue := [\<lparr>mime_type = ''audio/pcm'',
                                       data = Data_bytes (replicate 2048 2)\<rparr>],
                 sent := [\<lparr>input = Msg_text ''hi'', end_of_turn = Some True\<rparr>,
                          pump_call \<lparr>mime_type = ''audio/pcm'',
                                      data = Data_bytes (replicate 2048 1)\<rparr>],
                 user_message_count := 1\<rparr>))
        @ map pump_call
            (out_queue (init\<lparr>out_queue := [\<lparr>mime_type = ''audio/pcm'',
                                       data = Data_bytes (replicate 2048 2)\<rparr>],
                 sent := [\<lparr>input = Msg_text ''hi'', end_of_turn = Some True\<rparr>,
                          pump_call \<lparr>mime_type = ''audio/pcm'',
                                      data = Data_bytes (replicate 2048 1)\<rparr>],
                 user_message_count := 1\<rparr>))
        = map pump_call
            (enqueued [Mic_read (replicate 2048 1), Mic_read (replicate 2048 2),
                       Line ''hi'', Pump])"
    by (rule conjunct1)
  with a show ?thesis by (simp add: is_dict_def pump_call_def)
qed



text \<open>
  Claim C4 fails on the code. With no default input device \<open>check_audio_input\<close>
  returns \<open>(False, None)\<close>, yet \<open>listen_audio\<close> goes on to \<open>mic_info["index"]\<close> and
  raises TypeError; the task group fails, the handler for \<open>ExceptionGroup\<close> calls
  \<open>self.audio_stream.close()\<close> on an attribute that was never assigned, and \<open>run\<close>
  ends with AttributeError.
\<close>

theorem no_microphone_aborts_session:
  "check_audio_input None = (False, None)
   \<and> listen_audio_open None = Inl TypeError
   \<and> run \<lparr>mic_probe = None, video_mode = ''none'', mic_opened = False,
          speaker_opened = True, camera_opened = False, camera_reads = [],
          cause = User_quit\<rparr>
       = ([Opened Speaker], Some AttributeError)"
  by (simp add: run_def run_handlers_def exit_of_def has_audio_stream_def camera_task_def
      listen_audio_open_def check_audio_input_def play_audio_ops_def)

text \<open>
  Claim C5, as stated, fails: when the user quits a session that has opened the
  microphone, the speaker and the camera, only the microphone stream is closed; the
  output stream and the camera handle are left open.
\<close>

theorem devices_left_open_counterexample:
  "run \<lparr>mic_probe = Some \<lparr>index = 0\<rparr>, video_mode = ''camera'', mic_opened = True,
        speaker_opened = True, camera_opened = True,
        camera_reads = [Some \<lparr>width = 640, height = 480\<rparr>], cause = User_quit\<rparr>
     = ([Opened Microphone, Opened Speaker, Opened Camera, Closed Microphone], None)"
  by (simp add: run_def run_handlers_def exit_of_def has_audio_stream_def camera_task_def
      get_frames_def get_frame_def
      listen_audio_open_def check_audio_input_def play_audio_ops_def)

text \<open>
  Claim C5, amended. When a session ends by the user's quit, the microphone input
  stream is closed exactly once if it was opened (and not at all otherwise). On
  every exit path the speaker output stream is never closed, and the camera handle
  is released at most once, and only when a camera read had failed before the end
  of the session.
\<close>

theorem devices_closed_on_exit:
  "count_list (fst (run ss)) (Closed Speaker) = 0
   \<and> count_list (fst (run ss)) (Closed Camera) \<le> 1
   \<and> (Closed Camera \<in> set (fst (run ss)) \<longrightarrow> None \<in> set (camera_reads ss))
   \<and> (exit_of ss = User_quit \<longrightarrow>
        count_list (fst (run ss)) (Closed Microphone)
          = count_list (fst (run ss)) (Opened Microphone)
        \<and> count_list (fst (run ss)) (Opened Microphone) \<le> 1)"
  using camera_task_ops [of ss]
  by (auto simp: run_def run_handlers_def play_audio_ops_def Let_def
      split: exit_cause.splits prod.splits if_splits)

theorem devices_closed_on_exit_witness:
  "exit_of \<lparr>mic_probe = Some \<lparr>index = 0\<rparr>, video_mode = ''camera'', mic_opened = True,
            speaker_opened = True, camera_opened = True,
            camera_reads = [Some \<lparr>width = 640, height = 480\<rparr>, None], cause = User_quit\<rparr>
     = User_quit
   \<and> run \<lparr>mic_probe = Some \<lparr>index = 0\<rparr>, video_mode = ''camera'', mic_opened = True,
          speaker_opened = True, camera_opened = True,
          camera_reads = [Some \<lparr>width = 640, height = 480\<rparr>, None], cause = User_quit\<rparr>
     = ([Opened Microphone, Opened Speaker, Opened Camera, Closed Camera, Closed Microphone],
        None)"
  using devices_closed_on_exit [of "\<lparr>mic_probe = Some \<lparr>index = 0\<rparr>, video_mode = ''camera'',
      mic_opened = True, speaker_opened = True, camera_opened = True,
      camera_reads = [Some \<lparr>width = 640, height = 480\<rparr>, None], cause = User_quit\<rparr>"]
  by (simp add: run_def run_handlers_def exit_of_def has_audio_stream_def camera_task_def
      get_frames_def get_frame_def
      listen_audio_open_def check_audio_input_def play_audio_ops_def)




end
